theory Spec2Isabelle
  imports Main "HOL-Library.AList" "HOL-Library.Sublist"
begin

section \<open>Data model of \<^verbatim>\<open>model-registry.ts\<close>\<close>

text \<open>
  The enum \<^verbatim>\<open>ModelProvider\<close> is a string enum; at run time a provider identifier is a
  string, and the tests of the repository pass strings outside the enum
  (\<^verbatim>\<open>'invalid' as ModelProvider\<close>). A provider identifier is therefore a string here and
  the three members of the enum are named constants.

  Strings are \<open>string\<close>: the code units covered are those below 256.
  The field names of the interfaces carry a prefix, since \<^verbatim>\<open>id\<close>, \<^verbatim>\<open>name\<close> and
  \<^verbatim>\<open>provider\<close> occur in several of them: \<open>mi_\<close> for \<^verbatim>\<open>ModelInfo\<close>, \<open>pc_\<close> for
  \<^verbatim>\<open>ProviderConfig\<close>, \<open>cfg_\<close> for \<^verbatim>\<open>MultiProviderConfig\<close>.
\<close>

type_synonym ModelProvider = string

definition GEMINI :: ModelProvider where
  "GEMINI = ''gemini''"

definition OPENAI :: ModelProvider where
  "OPENAI = ''openai''"

definition ANTHROPIC :: ModelProvider where
  "ANTHROPIC = ''anthropic''"

text \<open>
  A property of an object is absent, present holding \<^verbatim>\<open>undefined\<close>, or present holding
  a value. Reading it gives \<^verbatim>\<open>undefined\<close> in the first two cases, but the two differ
  where the code can tell them apart: an object spread copies a property that holds
  \<^verbatim>\<open>undefined\<close>, a read of an absent property goes on to the prototype, and
  \<^verbatim>\<open>JSON.stringify\<close> writes neither. The type \<open>property\<close> is used for the fields
  where this is so (the fields of \<^verbatim>\<open>Partial<ModelRegistryData>\<close> and \<^verbatim>\<open>apiKey\<close>);
  elsewhere an optional field is an option, \<open>None\<close> for \<^verbatim>\<open>undefined\<close>.
\<close>

datatype 'a property = Absent | Undefined | Value 'a

text \<open>
  A \<^verbatim>\<open>number\<close> is finite or one of \<^verbatim>\<open>NaN\<close>, \<^verbatim>\<open>Infinity\<close>, \<^verbatim>\<open>-Infinity\<close>. The
  finite numbers covered are the integers (\<^verbatim>\<open>contextWindow\<close> counts tokens).
  \<^verbatim>\<open>JSON.stringify\<close> writes a number that is not finite as \<^verbatim>\<open>null\<close>, so the field
  \<^verbatim>\<open>contextWindow\<close> of a parsed object can hold \<^verbatim>\<open>null\<close>.
\<close>

datatype number = Finite int | NaN | PosInfinity | NegInfinity

datatype 'a nullable = Null | NonNull 'a

record ModelInfo =
  mi_id :: string
  mi_name :: string
  mi_provider :: ModelProvider
  mi_description :: "string option"
  mi_contextWindow :: "number nullable option"
  mi_supportsStreaming :: "bool option"

record ProviderConfig =
  pc_name :: string
  pc_provider :: ModelProvider
  pc_apiKey :: "string property"
  pc_baseUrl :: "string option"
  pc_models :: "ModelInfo list"

text \<open>
  \<^verbatim>\<open>providers: Record<ModelProvider, ProviderConfig>\<close> is an ordinary object (its
  prototype is \<^verbatim>\<open>Object.prototype\<close>) whose own properties \<^verbatim>\<open>Object.values\<close>
  enumerates in insertion order: an association list of the own properties, in property
  order. The constructor takes its argument's fields as they are, so each of the three
  fields of the registry's data can hold \<^verbatim>\<open>undefined\<close>.
\<close>

record ModelRegistryData =
  currentProvider :: "ModelProvider option"
  currentModel :: "string option"
  providers :: "(ModelProvider \<times> ProviderConfig) list option"

text \<open>\<^verbatim>\<open>Partial<ModelRegistryData>\<close>\<close>

record PartialModelRegistryData =
  p_currentProvider :: "ModelProvider property"
  p_currentModel :: "string property"
  p_providers :: "(ModelProvider \<times> ProviderConfig) list property"

section \<open>The built-in objects a lookup can reach\<close>

text \<open>
  \<^verbatim>\<open>this.data.providers[provider]\<close> is a property read: when \<^verbatim>\<open>providers\<close> has no
  own property of that name the read goes on to \<^verbatim>\<open>Object.prototype\<close>. There it finds a
  built-in function under each name of \<open>builtinFunctions\<close>, and \<^verbatim>\<open>Object.prototype\<close>
  itself under \<^verbatim>\<open>__proto__\<close>. \<^verbatim>\<open>setProviderApiKey\<close> assigns the property
  \<^verbatim>\<open>apiKey\<close> of whatever object the read found, so these built-in objects are part of
  the state: the realm records the \<^verbatim>\<open>apiKey\<close> property of \<^verbatim>\<open>Object.prototype\<close>
  (which every object without an own \<^verbatim>\<open>apiKey\<close> then inherits, and which makes
  \<^verbatim>\<open>apiKey\<close> itself a name that \<^verbatim>\<open>providers\<close> inherits) and that of each built-in
  function. No other property of a built-in object is ever written by the registry.
\<close>

record Realm =
  Object_prototype_apiKey :: "string option"
  builtin_apiKey :: "string \<rightharpoonup> string"

text \<open>The realm before any write.\<close>

definition pristine :: Realm where
  "pristine = \<lparr>Object_prototype_apiKey = None, builtin_apiKey = Map.empty\<rparr>"

definition builtinFunctions :: "string list" where
  "builtinFunctions =
    [''constructor'', ''__defineGetter__'', ''__defineSetter__'', ''hasOwnProperty'',
     ''__lookupGetter__'', ''__lookupSetter__'', ''isPrototypeOf'', ''propertyIsEnumerable'',
     ''toString'', ''valueOf'', ''toLocaleString'']"

text \<open>What \<^verbatim>\<open>providers[name]\<close> evaluates to.\<close>

datatype member =
  OwnConfig ProviderConfig
| BuiltinFunction string
| ObjectPrototype
| InheritedString string
| NotDefined

definition getMember :: "Realm \<Rightarrow> (ModelProvider \<times> ProviderConfig) list \<Rightarrow> string \<Rightarrow> member" where
  "getMember r ps name =
    (case map_of ps name of
       Some c \<Rightarrow> OwnConfig c
     | None \<Rightarrow>
         if name \<in> set builtinFunctions then BuiltinFunction name
         else if name = ''__proto__'' then ObjectPrototype
         else if name = ''apiKey'' then
           (case Object_prototype_apiKey r of
              None \<Rightarrow> NotDefined
            | Some s \<Rightarrow> InheritedString s)
         else NotDefined)"

text \<open>
  \<^verbatim>\<open>!providerConfig\<close> is true for \<^verbatim>\<open>undefined\<close> and for the empty string, false for
  every object and function and for a string that is not empty.
\<close>

fun falsy :: "member \<Rightarrow> bool" where
  "falsy NotDefined = True"
| "falsy (InheritedString s) = (s = [])"
| "falsy (OwnConfig c) = False"
| "falsy (BuiltinFunction f) = False"
| "falsy ObjectPrototype = False"

section \<open>The registry\<close>

text \<open>
  The class \<^verbatim>\<open>ModelRegistry\<close> has the single private field \<^verbatim>\<open>data\<close>. A registry is
  modelled with the realm it lives in. A method that mutates takes the registry and returns
  its outcome (the value returned, or the exception thrown) with the registry after the
  call. The exceptions the methods can throw are \<^verbatim>\<open>TypeError\<close>s.

  A provider entry is held by value: the registries covered are those in which no config
  object is stored under two keys, as it is for the objects the constructor creates and for
  those \<^verbatim>\<open>JSON.parse\<close> creates.
\<close>

datatype thrown = TypeError

record ModelRegistry =
  realm :: Realm
  data :: ModelRegistryData

definition geminiModels :: "ModelInfo list" where
  "geminiModels =
    [\<lparr>mi_id = ''gemini-2.5-pro'', mi_name = ''Gemini 2.5 Pro'', mi_provider = GEMINI,
      mi_description = Some ''Google's most capable AI model'',
      mi_contextWindow = Some (NonNull (Finite 1000000)), mi_supportsStreaming = Some True\<rparr>,
     \<lparr>mi_id = ''gemini-2.5-flash'', mi_name = ''Gemini 2.5 Flash'', mi_provider = GEMINI,
      mi_description = Some ''Faster, more efficient Gemini model'',
      mi_contextWindow = Some (NonNull (Finite 1000000)), mi_supportsStreaming = Some True\<rparr>,
     \<lparr>mi_id = ''gemini-1.5-pro'', mi_name = ''Gemini 1.5 Pro'', mi_provider = GEMINI,
      mi_description = Some ''Previous generation Gemini Pro model'',
      mi_contextWindow = Some (NonNull (Finite 2000000)), mi_supportsStreaming = Some True\<rparr>]"

definition openaiModels :: "ModelInfo list" where
  "openaiModels =
    [\<lparr>mi_id = ''gpt-4o'', mi_name = ''GPT-4o'', mi_provider = OPENAI,
      mi_description = Some ''OpenAI's most advanced multimodal model'',
      mi_contextWindow = Some (NonNull (Finite 128000)), mi_supportsStreaming = Some True\<rparr>,
     \<lparr>mi_id = ''gpt-4o-mini'', mi_name = ''GPT-4o mini'', mi_provider = OPENAI,
      mi_description = Some ''Faster, cost-effective GPT-4o model'',
      mi_contextWindow = Some (NonNull (Finite 128000)), mi_supportsStreaming = Some True\<rparr>,
     \<lparr>mi_id = ''gpt-4-turbo'', mi_name = ''GPT-4 Turbo'', mi_provider = OPENAI,
      mi_description = Some ''Enhanced GPT-4 with improved performance'',
      mi_contextWindow = Some (NonNull (Finite 128000)), mi_supportsStreaming = Some True\<rparr>]"

definition anthropicModels :: "ModelInfo list" where
  "anthropicModels =
    [\<lparr>mi_id = ''claude-3-5-sonnet-20241022'', mi_name = ''Claude 3.5 Sonnet'',
      mi_provider = ANTHROPIC,
      mi_description = Some ''Anthropic's most intelligent model'',
      mi_contextWindow = Some (NonNull (Finite 200000)), mi_supportsStreaming = Some True\<rparr>,
     \<lparr>mi_id = ''claude-3-5-haiku-20241022'', mi_name = ''Claude 3.5 Haiku'',
      mi_provider = ANTHROPIC,
      mi_description = Some ''Fast and capable Claude model'',
      mi_contextWindow = Some (NonNull (Finite 200000)), mi_supportsStreaming = Some True\<rparr>,
     \<lparr>mi_id = ''claude-3-opus-20240229'', mi_name = ''Claude 3 Opus'',
      mi_provider = ANTHROPIC,
      mi_description = Some ''Anthropic's most powerful model'',
      mi_contextWindow = Some (NonNull (Finite 200000)), mi_supportsStreaming = Some True\<rparr>]"

definition defaultProviders :: "(ModelProvider \<times> ProviderConfig) list" where
  "defaultProviders =
    [(GEMINI, \<lparr>pc_name = ''Google Gemini'', pc_provider = GEMINI, pc_apiKey = Absent,
               pc_baseUrl = None, pc_models = geminiModels\<rparr>),
     (OPENAI, \<lparr>pc_name = ''OpenAI'', pc_provider = OPENAI, pc_apiKey = Absent,
               pc_baseUrl = None, pc_models = openaiModels\<rparr>),
     (ANTHROPIC, \<lparr>pc_name = ''Anthropic Claude'', pc_provider = ANTHROPIC, pc_apiKey = Absent,
                  pc_baseUrl = None, pc_models = anthropicModels\<rparr>)]"

definition defaultData :: ModelRegistryData where
  "defaultData =
    \<lparr>currentProvider = Some GEMINI, currentModel = Some ''gemini-2.5-pro'',
     providers = Some defaultProviders\<rparr>"

text \<open>
  The object spread \<^verbatim>\<open>{ ...defaults, ...initialData }\<close>: every property present in
  \<^verbatim>\<open>initialData\<close> replaces the default of that name as a whole, also when it holds
  \<^verbatim>\<open>undefined\<close>.
\<close>

definition spread :: "ModelRegistryData \<Rightarrow> PartialModelRegistryData \<Rightarrow> ModelRegistryData" where
  "spread d p =
    \<lparr>currentProvider =
       (case p_currentProvider p of Absent \<Rightarrow> currentProvider d | Undefined \<Rightarrow> None
        | Value v \<Rightarrow> Some v),
     currentModel =
       (case p_currentModel p of Absent \<Rightarrow> currentModel d | Undefined \<Rightarrow> None
        | Value v \<Rightarrow> Some v),
     providers =
       (case p_providers p of Absent \<Rightarrow> providers d | Undefined \<Rightarrow> None
        | Value v \<Rightarrow> Some v)\<rparr>"

text \<open>
  \<^verbatim>\<open>constructor(initialData?: Partial<ModelRegistryData>)\<close>, run in the realm \<open>r\<close>.
\<close>

definition new_ModelRegistry :: "Realm \<Rightarrow> PartialModelRegistryData option \<Rightarrow> ModelRegistry" where
  "new_ModelRegistry r initialData =
    \<lparr>realm = r,
     data = (case initialData of
               None \<Rightarrow> defaultData
             | Some p \<Rightarrow> spread defaultData p)\<rparr>"

definition getCurrentProvider :: "ModelRegistry \<Rightarrow> ModelProvider option" where
  "getCurrentProvider w = currentProvider (data w)"

definition getCurrentModel :: "ModelRegistry \<Rightarrow> string option" where
  "getCurrentModel w = currentModel (data w)"

text \<open>
  A property key that is \<^verbatim>\<open>undefined\<close> is the string \<^verbatim>\<open>'undefined'\<close>.
\<close>

definition propertyKey :: "string option \<Rightarrow> string" where
  "propertyKey k = (case k of None \<Rightarrow> ''undefined'' | Some s \<Rightarrow> s)"

text \<open>
  \<^verbatim>\<open>provider?.models.find(...)\<close>: only \<^verbatim>\<open>undefined\<close> stops the chain; a function,
  \<^verbatim>\<open>Object.prototype\<close> or a string has no \<^verbatim>\<open>models\<close>, and \<^verbatim>\<open>find\<close> of
  \<^verbatim>\<open>undefined\<close> throws. Reading a property of \<^verbatim>\<open>providers\<close> throws when
  \<^verbatim>\<open>providers\<close> is \<^verbatim>\<open>undefined\<close>.
\<close>

definition getCurrentModelInfo :: "ModelRegistry \<Rightarrow> thrown + ModelInfo option" where
  "getCurrentModelInfo w =
    (case providers (data w) of
       None \<Rightarrow> Inl TypeError
     | Some ps \<Rightarrow>
         (case getMember (realm w) ps (propertyKey (currentProvider (data w))) of
            NotDefined \<Rightarrow> Inr None
          | OwnConfig provider \<Rightarrow>
              Inr (find (\<lambda>m. Some (mi_id m) = currentModel (data w)) (pc_models provider))
          | BuiltinFunction f \<Rightarrow> Inl TypeError
          | ObjectPrototype \<Rightarrow> Inl TypeError
          | InheritedString s \<Rightarrow> Inl TypeError))"

text \<open>\<^verbatim>\<open>Object.values\<close> throws on \<^verbatim>\<open>undefined\<close> and lists own properties only.\<close>

definition getProviders :: "ModelRegistry \<Rightarrow> thrown + ProviderConfig list" where
  "getProviders w =
    (case providers (data w) of
       None \<Rightarrow> Inl TypeError
     | Some ps \<Rightarrow> Inr (map snd ps))"

definition getProvider :: "ModelRegistry \<Rightarrow> ModelProvider \<Rightarrow> thrown + member" where
  "getProvider w provider =
    (case providers (data w) of
       None \<Rightarrow> Inl TypeError
     | Some ps \<Rightarrow> Inr (getMember (realm w) ps provider))"

text \<open>
  \<^verbatim>\<open>this.data.providers[provider]?.models || []\<close>: an own config gives its array; every
  other member has no \<^verbatim>\<open>models\<close>.
\<close>

definition getModelsForProvider :: "ModelRegistry \<Rightarrow> ModelProvider \<Rightarrow> thrown + ModelInfo list" where
  "getModelsForProvider w provider =
    (case providers (data w) of
       None \<Rightarrow> Inl TypeError
     | Some ps \<Rightarrow>
         Inr (case getMember (realm w) ps provider of
                OwnConfig c \<Rightarrow> pc_models c
              | BuiltinFunction f \<Rightarrow> []
              | ObjectPrototype \<Rightarrow> []
              | InheritedString s \<Rightarrow> []
              | NotDefined \<Rightarrow> []))"

definition getAllModels :: "ModelRegistry \<Rightarrow> thrown + ModelInfo list" where
  "getAllModels w =
    (case providers (data w) of
       None \<Rightarrow> Inl TypeError
     | Some ps \<Rightarrow> Inr (concat (map (\<lambda>provider. pc_models provider) (map snd ps))))"

text \<open>
  \<^verbatim>\<open>setCurrentModel\<close>. After the guard \<^verbatim>\<open>!providerConfig\<close>, a member that is not an
  own config has no \<^verbatim>\<open>models\<close>, and \<^verbatim>\<open>providerConfig.models.find\<close> throws.
\<close>

definition setCurrentModel ::
  "ModelRegistry \<Rightarrow> ModelProvider \<Rightarrow> string \<Rightarrow> (thrown + bool) \<times> ModelRegistry" where
  "setCurrentModel w provider modelId =
    (case providers (data w) of
       None \<Rightarrow> (Inl TypeError, w)
     | Some ps \<Rightarrow>
         (let providerConfig = getMember (realm w) ps provider in
          if falsy providerConfig then (Inr False, w)
          else
            (case providerConfig of
               OwnConfig c \<Rightarrow>
                 (case find (\<lambda>m. mi_id m = modelId) (pc_models c) of
                    None \<Rightarrow> (Inr False, w)
                  | Some model \<Rightarrow>
                      (Inr True,
                       w\<lparr>data := (data w)\<lparr>currentProvider := Some provider,
                                            currentModel := Some modelId\<rparr>\<rparr>))
             | BuiltinFunction f \<Rightarrow> (Inl TypeError, w)
             | ObjectPrototype \<Rightarrow> (Inl TypeError, w)
             | InheritedString s \<Rightarrow> (Inl TypeError, w)
             | NotDefined \<Rightarrow> (Inr False, w))))"

text \<open>
  \<^verbatim>\<open>setProviderApiKey\<close>. \<^verbatim>\<open>providerConfig.apiKey = apiKey\<close> assigns the property of
  the member the read found: of the own config (the entry of that key is replaced by the
  updated object), of the built-in function, or of \<^verbatim>\<open>Object.prototype\<close>. The body of
  a class is strict code, where assigning a property of a string throws.
\<close>

definition setProviderApiKey ::
  "ModelRegistry \<Rightarrow> ModelProvider \<Rightarrow> string \<Rightarrow> (thrown + bool) \<times> ModelRegistry" where
  "setProviderApiKey w provider apiKey =
    (case providers (data w) of
       None \<Rightarrow> (Inl TypeError, w)
     | Some ps \<Rightarrow>
         (let providerConfig = getMember (realm w) ps provider in
          if falsy providerConfig then (Inr False, w)
          else
            (case providerConfig of
               OwnConfig c \<Rightarrow>
                 (Inr True,
                  w\<lparr>data := (data w)\<lparr>providers :=
                       Some (AList.update provider (c\<lparr>pc_apiKey := Value apiKey\<rparr>) ps)\<rparr>\<rparr>)
             | BuiltinFunction f \<Rightarrow>
                 (Inr True,
                  w\<lparr>realm := (realm w)\<lparr>builtin_apiKey :=
                       (builtin_apiKey (realm w))(f \<mapsto> apiKey)\<rparr>\<rparr>)
             | ObjectPrototype \<Rightarrow>
                 (Inr True,
                  w\<lparr>realm := (realm w)\<lparr>Object_prototype_apiKey := Some apiKey\<rparr>\<rparr>)
             | InheritedString s \<Rightarrow> (Inl TypeError, w)
             | NotDefined \<Rightarrow> (Inr False, w))))"

text \<open>
  \<^verbatim>\<open>this.data.providers[provider]?.apiKey\<close>: an own \<^verbatim>\<open>apiKey\<close> property of the member
  if it has one, else the \<^verbatim>\<open>apiKey\<close> it inherits from \<^verbatim>\<open>Object.prototype\<close>.
\<close>

definition getProviderApiKey :: "ModelRegistry \<Rightarrow> ModelProvider \<Rightarrow> thrown + string option" where
  "getProviderApiKey w provider =
    (case providers (data w) of
       None \<Rightarrow> Inl TypeError
     | Some ps \<Rightarrow>
         Inr (case getMember (realm w) ps provider of
                OwnConfig c \<Rightarrow>
                  (case pc_apiKey c of
                     Value k \<Rightarrow> Some k
                   | Undefined \<Rightarrow> None
                   | Absent \<Rightarrow> Object_prototype_apiKey (realm w))
              | BuiltinFunction f \<Rightarrow>
                  (case builtin_apiKey (realm w) f of
                     Some k \<Rightarrow> Some k
                   | None \<Rightarrow> Object_prototype_apiKey (realm w))
              | ObjectPrototype \<Rightarrow> Object_prototype_apiKey (realm w)
              | InheritedString s \<Rightarrow> Object_prototype_apiKey (realm w)
              | NotDefined \<Rightarrow> None))"

text \<open>
  \<^verbatim>\<open>String.prototype.trim\<close> strips white space and line terminators from both ends.
  Among the code units below 256 these are TAB, LF, VT, FF, CR, SP and NBSP.
\<close>

definition isWhiteSpace :: "char \<Rightarrow> bool" where
  "isWhiteSpace c = (of_char c \<in> {9, 10, 11, 12, 13, 32, 160 :: nat})"

definition trim :: "string \<Rightarrow> string" where
  "trim s = rev (dropWhile isWhiteSpace (rev (dropWhile isWhiteSpace s)))"

text \<open>
  \<^verbatim>\<open>!!apiKey && apiKey.trim().length > 0\<close>: \<^verbatim>\<open>!!apiKey\<close> is false for
  \<^verbatim>\<open>undefined\<close> and for the empty string.
\<close>

definition hasValidApiKey :: "ModelRegistry \<Rightarrow> ModelProvider \<Rightarrow> thrown + bool" where
  "hasValidApiKey w provider =
    (case getProviderApiKey w provider of
       Inl e \<Rightarrow> Inl e
     | Inr None \<Rightarrow> Inr False
     | Inr (Some apiKey) \<Rightarrow> Inr (apiKey \<noteq> [] \<and> length (trim apiKey) > 0))"

subsection \<open>Snapshots\<close>

text \<open>
  \<^verbatim>\<open>JSON.parse(JSON.stringify(this.data))\<close> builds new objects from the text of the
  data. The text has no property that holds \<^verbatim>\<open>undefined\<close>, and a number that is not
  finite is written as \<^verbatim>\<open>null\<close>; strings, booleans, finite numbers, \<^verbatim>\<open>null\<close> and the
  order of properties and array elements come back as they were. The result is typed
  \<^verbatim>\<open>ModelRegistryData\<close>, but each of its three properties is there only if the data held
  a value for it.
\<close>

fun jsonNumber :: "number nullable \<Rightarrow> number nullable" where
  "jsonNumber (NonNull (Finite n)) = NonNull (Finite n)"
| "jsonNumber (NonNull NaN) = Null"
| "jsonNumber (NonNull PosInfinity) = Null"
| "jsonNumber (NonNull NegInfinity) = Null"
| "jsonNumber Null = Null"

definition jsonModelInfo :: "ModelInfo \<Rightarrow> ModelInfo" where
  "jsonModelInfo m = m\<lparr>mi_contextWindow := map_option jsonNumber (mi_contextWindow m)\<rparr>"

definition jsonProviderConfig :: "ProviderConfig \<Rightarrow> ProviderConfig" where
  "jsonProviderConfig c =
    c\<lparr>pc_apiKey := (case pc_apiKey c of Undefined \<Rightarrow> Absent | Absent \<Rightarrow> Absent
                     | Value k \<Rightarrow> Value k),
      pc_models := map jsonModelInfo (pc_models c)\<rparr>"

definition toJSON :: "ModelRegistry \<Rightarrow> PartialModelRegistryData" where
  "toJSON w =
    \<lparr>p_currentProvider =
       (case currentProvider (data w) of None \<Rightarrow> Absent | Some v \<Rightarrow> Value v),
     p_currentModel =
       (case currentModel (data w) of None \<Rightarrow> Absent | Some v \<Rightarrow> Value v),
     p_providers =
       (case providers (data w) of
          None \<Rightarrow> Absent
        | Some ps \<Rightarrow> Value (map (\<lambda>(k, c). (k, jsonProviderConfig c)) ps))\<rparr>"

text \<open>\<^verbatim>\<open>static fromJSON(data)\<close>, run in the realm \<open>r\<close>.\<close>

definition fromJSON :: "Realm \<Rightarrow> PartialModelRegistryData \<Rightarrow> ModelRegistry" where
  "fromJSON r snapshot = new_ModelRegistry r (Some snapshot)"

text \<open>
  The data that JSON text can hold: the three fields have values, no \<^verbatim>\<open>apiKey\<close>
  property holds \<^verbatim>\<open>undefined\<close>, and every \<^verbatim>\<open>contextWindow\<close> is absent, \<^verbatim>\<open>null\<close> or
  finite.
\<close>

fun jsonValue :: "number nullable option \<Rightarrow> bool" where
  "jsonValue None = True"
| "jsonValue (Some Null) = True"
| "jsonValue (Some (NonNull (Finite n))) = True"
| "jsonValue (Some (NonNull NaN)) = False"
| "jsonValue (Some (NonNull PosInfinity)) = False"
| "jsonValue (Some (NonNull NegInfinity)) = False"

definition jsonRepresentable :: "ModelRegistryData \<Rightarrow> bool" where
  "jsonRepresentable d =
    (currentProvider d \<noteq> None \<and> currentModel d \<noteq> None \<and>
     (case providers d of
        None \<Rightarrow> False
      | Some ps \<Rightarrow>
          list_all (\<lambda>(k, c). pc_apiKey c \<noteq> Undefined \<and>
                             list_all (\<lambda>m. jsonValue (mi_contextWindow m)) (pc_models c)) ps))"

subsection \<open>Sequences of mutating calls\<close>

datatype RegistryCall =
  SetCurrentModel ModelProvider string
| SetProviderApiKey ModelProvider string

text \<open>The registry after a call, whether the call returned or threw.\<close>

fun call :: "ModelRegistry \<Rightarrow> RegistryCall \<Rightarrow> ModelRegistry" where
  "call w (SetCurrentModel provider modelId) = snd (setCurrentModel w provider modelId)"
| "call w (SetProviderApiKey provider apiKey) = snd (setProviderApiKey w provider apiKey)"

definition calls :: "ModelRegistry \<Rightarrow> RegistryCall list \<Rightarrow> ModelRegistry" where
  "calls w cs = foldl call w cs"

text \<open>The selection names a model of the current provider.\<close>

definition selectionValid :: "ModelRegistry \<Rightarrow> bool" where
  "selectionValid w =
    (case providers (data w) of
       None \<Rightarrow> False
     | Some ps \<Rightarrow>
         (case currentProvider (data w) of
            None \<Rightarrow> False
          | Some p \<Rightarrow>
              (case map_of ps p of
                 None \<Rightarrow> False
               | Some c \<Rightarrow>
                   (case currentModel (data w) of
                      None \<Rightarrow> False
                    | Some m \<Rightarrow> m \<in> set (map mi_id (pc_models c))))))"

text \<open>
  The catalog is the default one up to the credentials: the keys, their order and every
  field of every provider other than \<^verbatim>\<open>apiKey\<close> are those the constructor writes.
\<close>

definition catalogIntact :: "ModelRegistry \<Rightarrow> bool" where
  "catalogIntact w =
    (case providers (data w) of
       None \<Rightarrow> False
     | Some ps \<Rightarrow> map (\<lambda>(k, c). (k, c\<lparr>pc_apiKey := Absent\<rparr>)) ps = defaultProviders)"

subsection \<open>Particular inputs\<close>

text \<open>
  A snapshot whose \<^verbatim>\<open>providers\<close> object holds the three default provider entries,
  inserted in the order anthropic, openai, gemini. It has every key that
  \<^verbatim>\<open>Record<ModelProvider, ProviderConfig>\<close> asks for.
\<close>

definition reorderedSnapshot :: PartialModelRegistryData where
  "reorderedSnapshot =
    \<lparr>p_currentProvider = Absent, p_currentModel = Absent,
     p_providers = Value
       [(ANTHROPIC, \<lparr>pc_name = ''Anthropic Claude'', pc_provider = ANTHROPIC, pc_apiKey = Absent,
                     pc_baseUrl = None, pc_models = anthropicModels\<rparr>),
        (OPENAI, \<lparr>pc_name = ''OpenAI'', pc_provider = OPENAI, pc_apiKey = Absent,
                  pc_baseUrl = None, pc_models = openaiModels\<rparr>),
        (GEMINI, \<lparr>pc_name = ''Google Gemini'', pc_provider = GEMINI, pc_apiKey = Absent,
                  pc_baseUrl = None, pc_models = geminiModels\<rparr>)]\<rparr>"

text \<open>\<^verbatim>\<open>new ModelRegistry({ currentModel: undefined })\<close> in the pristine realm.\<close>

definition undefinedModelRegistry :: ModelRegistry where
  "undefinedModelRegistry =
    new_ModelRegistry pristine
      (Some \<lparr>p_currentProvider = Absent, p_currentModel = Undefined, p_providers = Absent\<rparr>)"

text \<open>
  A registry in the pristine realm, built from a snapshot whose \<^verbatim>\<open>gemini\<close> entry
  offers one model of unbounded context window,
  \<^verbatim>\<open>{ id: 'unbounded', name: 'Unbounded', provider: 'gemini', contextWindow: Infinity }\<close>,
  beside the default entries of the two other providers.
\<close>

definition unboundedModel :: ModelInfo where
  "unboundedModel =
    \<lparr>mi_id = ''unbounded'', mi_name = ''Unbounded'', mi_provider = GEMINI,
     mi_description = None, mi_contextWindow = Some (NonNull PosInfinity),
     mi_supportsStreaming = None\<rparr>"

definition unboundedRegistry :: ModelRegistry where
  "unboundedRegistry =
    new_ModelRegistry pristine
      (Some \<lparr>p_currentProvider = Absent, p_currentModel = Value ''unbounded'',
             p_providers = Value
               [(GEMINI, \<lparr>pc_name = ''Google Gemini'', pc_provider = GEMINI, pc_apiKey = Absent,
                          pc_baseUrl = None, pc_models = [unboundedModel]\<rparr>),
                (OPENAI, \<lparr>pc_name = ''OpenAI'', pc_provider = OPENAI, pc_apiKey = Absent,
                          pc_baseUrl = None, pc_models = openaiModels\<rparr>),
                (ANTHROPIC, \<lparr>pc_name = ''Anthropic Claude'', pc_provider = ANTHROPIC,
                             pc_apiKey = Absent, pc_baseUrl = None,
                             pc_models = anthropicModels\<rparr>)]\<rparr>)"

text \<open>
  A registry built, in a realm where \<^verbatim>\<open>Object.prototype.apiKey\<close> is \<^verbatim>\<open>'key'\<close>, from
  a snapshot whose \<^verbatim>\<open>gemini\<close> entry has the property \<^verbatim>\<open>apiKey: undefined\<close>.
\<close>

definition shadowingRegistry :: ModelRegistry where
  "shadowingRegistry =
    new_ModelRegistry \<lparr>Object_prototype_apiKey = Some ''key'', builtin_apiKey = Map.empty\<rparr>
      (Some \<lparr>p_currentProvider = Absent, p_currentModel = Absent,
             p_providers = Value
               [(GEMINI, \<lparr>pc_name = ''Google Gemini'', pc_provider = GEMINI,
                          pc_apiKey = Undefined, pc_baseUrl = None, pc_models = geminiModels\<rparr>),
                (OPENAI, \<lparr>pc_name = ''OpenAI'', pc_provider = OPENAI, pc_apiKey = Absent,
                          pc_baseUrl = None, pc_models = openaiModels\<rparr>),
                (ANTHROPIC, \<lparr>pc_name = ''Anthropic Claude'', pc_provider = ANTHROPIC,
                             pc_apiKey = Absent, pc_baseUrl = None,
                             pc_models = anthropicModels\<rparr>)]\<rparr>)"

text \<open>
  The registry of the repository's serialization test: on a default registry in the pristine
  realm, \<^verbatim>\<open>setCurrentModel(ANTHROPIC, 'claude-3-5-sonnet-20241022')\<close> and then
  \<^verbatim>\<open>setProviderApiKey(ANTHROPIC, 'test-key')\<close>.
\<close>

definition serializedRegistry :: ModelRegistry where
  "serializedRegistry =
    calls (new_ModelRegistry pristine None)
      [SetCurrentModel ANTHROPIC ''claude-3-5-sonnet-20241022'',
       SetProviderApiKey ANTHROPIC ''test-key'']"

section \<open>The provider content generators\<close>

record MultiProviderConfig =
  cfg_provider :: ModelProvider
  cfg_model :: string
  cfg_apiKey :: "string option"
  cfg_baseUrl :: "string option"
  cfg_proxy :: "string option"

text \<open>A thrown \<^verbatim>\<open>Error\<close> with its message.\<close>

datatype error = Error string

text \<open>
  The settled state of the promise an \<^verbatim>\<open>async\<close> method returns: a \<^verbatim>\<open>throw\<close> in
  the body of an \<^verbatim>\<open>async\<close> method rejects the promise it returns. A \<^verbatim>\<open>throw\<close> in
  an ordinary function is the left summand of its result.
\<close>

datatype 'a Promise = Resolved 'a | Rejected error

text \<open>The two concrete subclasses of \<^verbatim>\<open>ProviderContentGenerator\<close>, each holding its config.\<close>

datatype ProviderContentGenerator =
  OpenAIContentGenerator MultiProviderConfig
| AnthropicContentGenerator MultiProviderConfig

text \<open>
  The request and response types come from \<^verbatim>\<open>@google/genai\<close>; they are type
  parameters.
\<close>

fun generateContent :: "ProviderContentGenerator \<Rightarrow> 'req \<Rightarrow> 'resp Promise" where
  "generateContent (OpenAIContentGenerator config) request =
     Rejected (Error ''OpenAI provider is not yet implemented. Please use Gemini provider for now.'')"
| "generateContent (AnthropicContentGenerator config) request =
     Rejected (Error ''Anthropic provider is not yet implemented. Please use Gemini provider for now.'')"

fun generateContentStream :: "ProviderContentGenerator \<Rightarrow> 'req \<Rightarrow> 'resp Promise" where
  "generateContentStream (OpenAIContentGenerator config) request =
     Rejected (Error ''OpenAI provider is not yet implemented. Please use Gemini provider for now.'')"
| "generateContentStream (AnthropicContentGenerator config) request =
     Rejected (Error ''Anthropic provider is not yet implemented. Please use Gemini provider for now.'')"

fun countTokens :: "ProviderContentGenerator \<Rightarrow> 'req \<Rightarrow> 'resp Promise" where
  "countTokens (OpenAIContentGenerator config) request =
     Rejected (Error ''OpenAI provider is not yet implemented. Please use Gemini provider for now.'')"
| "countTokens (AnthropicContentGenerator config) request =
     Rejected (Error ''Anthropic provider is not yet implemented. Please use Gemini provider for now.'')"

fun embedContent :: "ProviderContentGenerator \<Rightarrow> 'req \<Rightarrow> 'resp Promise" where
  "embedContent (OpenAIContentGenerator config) request =
     Rejected (Error ''OpenAI provider is not yet implemented. Please use Gemini provider for now.'')"
| "embedContent (AnthropicContentGenerator config) request =
     Rejected (Error ''Anthropic provider is not yet implemented. Please use Gemini provider for now.'')"

definition createProviderContentGenerator ::
  "MultiProviderConfig \<Rightarrow> error + ProviderContentGenerator" where
  "createProviderContentGenerator config =
    (if cfg_provider config = OPENAI then Inr (OpenAIContentGenerator config)
     else if cfg_provider config = ANTHROPIC then Inr (AnthropicContentGenerator config)
     else Inl (Error (''Unsupported provider: '' @ cfg_provider config)))"

section \<open>Properties of the registry\<close>

lemmas registry_defs = new_ModelRegistry_def defaultData_def defaultProviders_def
  geminiModels_def openaiModels_def anthropicModels_def GEMINI_def OPENAI_def ANTHROPIC_def

subsection \<open>Selecting a model\<close>

lemma find_None_ids: "find (\<lambda>m. mi_id m = x) ms = None \<longleftrightarrow> x \<notin> set (map mi_id ms)"
  by (induction ms) auto

lemma find_Some_ids: "find (\<lambda>m. mi_id m = x) ms = Some m \<Longrightarrow> x \<in> set (map mi_id ms)"
  using find_None_ids [of x ms] by simp

lemma getMember_OwnConfig_iff: "getMember r ps name = OwnConfig c \<longleftrightarrow> map_of ps name = Some c"
  by (auto simp: getMember_def split: option.splits)

lemma getMember_own: "map_of ps name = Some c \<Longrightarrow> getMember r ps name = OwnConfig c"
  by (simp add: getMember_def)

lemma getMember_not_own: "map_of ps name = None \<Longrightarrow> getMember r ps name \<noteq> OwnConfig c"
  by (simp add: getMember_def split: option.splits)

text \<open>
  Whatever its outcome, \<^verbatim>\<open>setCurrentModel\<close> writes both fields of the selection or
  neither: it returns true exactly when \<^verbatim>\<open>provider\<close> is an own key of the providers
  object and \<^verbatim>\<open>modelId\<close> is the id of one of that provider's models, and then the
  registry differs from the one before in the two fields only; on every other outcome,
  returned or thrown, the registry is the one before the call.
\<close>

lemma setCurrentModel_no_partial_update:
  "(fst (setCurrentModel w provider modelId) = Inr True \<longleftrightarrow>
      (\<exists>ps c. providers (data w) = Some ps \<and> map_of ps provider = Some c \<and>
              modelId \<in> set (map mi_id (pc_models c)))) \<and>
   (fst (setCurrentModel w provider modelId) = Inr True \<longrightarrow>
      snd (setCurrentModel w provider modelId) =
        w\<lparr>data := (data w)\<lparr>currentProvider := Some provider, currentModel := Some modelId\<rparr>\<rparr>) \<and>
   (fst (setCurrentModel w provider modelId) \<noteq> Inr True \<longrightarrow>
      snd (setCurrentModel w provider modelId) = w)"
proof (cases "providers (data w)")
  case None
  then show ?thesis by (simp add: setCurrentModel_def)
next
  case (Some ps)
  show ?thesis
  proof (cases "map_of ps provider")
    case None
    then show ?thesis
      using Some getMember_not_own [of ps provider "realm w"]
      by (auto simp: setCurrentModel_def Let_def split: member.splits option.splits)
  next
    case (Some c)
    then show ?thesis
      using \<open>providers (data w) = Some ps\<close>
      by (auto simp: setCurrentModel_def Let_def getMember_own find_None_ids
            split: option.splits dest: find_Some_ids)
  qed
qed

text \<open>
  C1. The specification has \<^verbatim>\<open>setCurrentModel\<close> return false, changing nothing, whenever
  \<^verbatim>\<open>provider\<close> is not a key of the providers map. On the default registry the name
  \<^verbatim>\<open>constructor\<close> is not such a key, but \<^verbatim>\<open>providers['constructor']\<close> is the function
  that \<^verbatim>\<open>Object.prototype\<close> holds under that name: it passes the guard
  \<^verbatim>\<open>!providerConfig\<close>, and the call throws a \<^verbatim>\<open>TypeError\<close> where it should return
  false (the registry stays as it was). For \<^verbatim>\<open>invalid\<close>, the name of the repository's
  test, which nothing inherits, the call returns false.
\<close>

theorem setCurrentModel_inherited_name_throws:
  "''constructor'' \<notin> fst ` set defaultProviders \<and>
   getProvider (new_ModelRegistry pristine None) ''constructor'' =
     Inr (BuiltinFunction ''constructor'') \<and>
   setCurrentModel (new_ModelRegistry pristine None) ''constructor'' ''gpt-4o'' =
     (Inl TypeError, new_ModelRegistry pristine None) \<and>
   setCurrentModel (new_ModelRegistry pristine None) ''invalid'' ''gpt-4o'' =
     (Inr False, new_ModelRegistry pristine None)"
  by (simp add: registry_defs setCurrentModel_def getProvider_def getMember_def
        builtinFunctions_def)

text \<open>
  C10. \<^verbatim>\<open>setCurrentModel\<close> writes \<^verbatim>\<open>currentProvider\<close> and \<^verbatim>\<open>currentModel\<close> only:
  the providers map, and so every provider's name, apiKey, baseUrl and models, is the
  same after the call as before, whatever the call returns or throws; so is the realm.
\<close>

theorem setCurrentModel_frame:
  "providers (data (snd (setCurrentModel w provider modelId))) = providers (data w) \<and>
   getProviders (snd (setCurrentModel w provider modelId)) = getProviders w \<and>
   realm (snd (setCurrentModel w provider modelId)) = realm w"
  by (simp add: setCurrentModel_def getProviders_def Let_def split: option.splits member.splits)

subsection \<open>Credentials\<close>

text \<open>
  For an own key of the providers object \<^verbatim>\<open>setProviderApiKey\<close> returns true, replaces
  the \<^verbatim>\<open>apiKey\<close> of that entry by the key as given and changes nothing else, and the key
  read back is that key; for a name that \<^verbatim>\<open>providers\<close> neither has nor inherits it
  returns false and changes nothing.
\<close>

lemma setProviderApiKey_own_or_unknown:
  "(map_of ps provider = Some c \<and> providers (data w) = Some ps \<longrightarrow>
      setProviderApiKey w provider apiKey =
        (Inr True,
         w\<lparr>data := (data w)\<lparr>providers :=
              Some (AList.update provider (c\<lparr>pc_apiKey := Value apiKey\<rparr>) ps)\<rparr>\<rparr>) \<and>
      getProviderApiKey (snd (setProviderApiKey w provider apiKey)) provider =
        Inr (Some apiKey)) \<and>
   (getProvider w provider = Inr NotDefined \<longrightarrow>
      setProviderApiKey w provider apiKey = (Inr False, w))"
  by (auto simp: setProviderApiKey_def getProviderApiKey_def getProvider_def getMember_own
        update_conv' split: option.splits)

text \<open>
  C9. The specification has \<^verbatim>\<open>setProviderApiKey\<close> return true only for a key of the
  providers map, and otherwise return false and change nothing. On the default registry
  neither \<^verbatim>\<open>constructor\<close> nor \<^verbatim>\<open>__proto__\<close> is such a key, yet the call returns true
  for both: the guard \<^verbatim>\<open>!providerConfig\<close> lets the inherited object pass and the key is
  assigned to it. With \<^verbatim>\<open>__proto__\<close> that object is \<^verbatim>\<open>Object.prototype\<close>, and the
  provider \<^verbatim>\<open>gemini\<close>, for which no key was stored, reads the key afterwards. For
  \<^verbatim>\<open>invalid\<close>, the name of the repository's test, the call returns false and changes
  nothing.
\<close>

theorem setProviderApiKey_inherited_name_accepted:
  "''__proto__'' \<notin> fst ` set defaultProviders \<and>
   ''constructor'' \<notin> fst ` set defaultProviders \<and>
   fst (setProviderApiKey (new_ModelRegistry pristine None) ''constructor'' ''key'') = Inr True \<and>
   fst (setProviderApiKey (new_ModelRegistry pristine None) ''__proto__'' ''key'') = Inr True \<and>
   getProviderApiKey (new_ModelRegistry pristine None) GEMINI = Inr None \<and>
   getProviderApiKey
     (snd (setProviderApiKey (new_ModelRegistry pristine None) ''__proto__'' ''key'')) GEMINI =
     Inr (Some ''key'') \<and>
   setProviderApiKey (new_ModelRegistry pristine None) ''invalid'' ''key'' =
     (Inr False, new_ModelRegistry pristine None)"
  by (simp add: registry_defs setProviderApiKey_def getProviderApiKey_def getMember_def
        builtinFunctions_def pristine_def)

lemma trim_Nil_iff: "trim s = [] \<longleftrightarrow> (\<forall>c\<in>set s. isWhiteSpace c)"
proof
  assume "trim s = []"
  then have "\<forall>x\<in>set (dropWhile isWhiteSpace s). isWhiteSpace x"
    by (simp add: trim_def dropWhile_eq_Nil_conv)
  then have "dropWhile isWhiteSpace s = []"
    using hd_dropWhile [of isWhiteSpace s] hd_in_set [of "dropWhile isWhiteSpace s"] by blast
  then show "\<forall>c\<in>set s. isWhiteSpace c"
    by (simp add: dropWhile_eq_Nil_conv)
next
  assume "\<forall>c\<in>set s. isWhiteSpace c"
  then have "\<forall>x\<in>set (dropWhile isWhiteSpace s). isWhiteSpace x"
    by (auto dest: set_dropWhileD)
  then show "trim s = []" by (simp add: trim_def)
qed

lemma getProviderApiKey_default: "getProviderApiKey (new_ModelRegistry pristine None) p = Inr None"
  by (simp add: getProviderApiKey_def getMember_def new_ModelRegistry_def defaultData_def
        defaultProviders_def pristine_def split: option.splits)

text \<open>
  C6. \<^verbatim>\<open>hasValidApiKey(p)\<close> is true exactly when a key is stored for \<^verbatim>\<open>p\<close> and the
  trimmed key has a length above zero. So it is false when no key is stored (as for every
  provider of a default registry in the pristine realm, where none was ever set), false
  when the stored key is empty or all white space, and true when the stored key has a
  character that is not white space. It throws exactly when reading the key throws.
\<close>

theorem hasValidApiKey_blank_policy:
  "(hasValidApiKey w p = Inr True \<longleftrightarrow>
      (\<exists>k. getProviderApiKey w p = Inr (Some k) \<and> length (trim k) > 0)) \<and>
   (getProviderApiKey w p = Inr None \<longrightarrow> hasValidApiKey w p = Inr False) \<and>
   (\<forall>k. getProviderApiKey w p = Inr (Some k) \<and> (\<forall>c\<in>set k. isWhiteSpace c) \<longrightarrow>
        hasValidApiKey w p = Inr False) \<and>
   (\<forall>k. getProviderApiKey w p = Inr (Some k) \<and> (\<exists>c\<in>set k. \<not> isWhiteSpace c) \<longrightarrow>
        hasValidApiKey w p = Inr True) \<and>
   (\<forall>e. hasValidApiKey w p = Inl e \<longleftrightarrow> getProviderApiKey w p = Inl e) \<and>
   hasValidApiKey (new_ModelRegistry pristine None) p = Inr False"
proof -
  have nil: "trim [] = []" by (simp add: trim_def)
  have a: "hasValidApiKey w p = Inr True \<longleftrightarrow>
           (\<exists>k. getProviderApiKey w p = Inr (Some k) \<and> length (trim k) > 0)"
    using nil by (auto simp: hasValidApiKey_def split: option.splits sum.splits)
  have b: "hasValidApiKey (new_ModelRegistry pristine None) p = Inr False"
    by (simp add: hasValidApiKey_def getProviderApiKey_default)
  have c: "getProviderApiKey w p = Inr None \<longrightarrow> hasValidApiKey w p = Inr False"
    by (simp add: hasValidApiKey_def)
  have d: "\<forall>k. getProviderApiKey w p = Inr (Some k) \<and> (\<forall>c\<in>set k. isWhiteSpace c) \<longrightarrow>
        hasValidApiKey w p = Inr False"
    using trim_Nil_iff by (auto simp: hasValidApiKey_def)
  have e: "\<forall>k. getProviderApiKey w p = Inr (Some k) \<and> (\<exists>c\<in>set k. \<not> isWhiteSpace c) \<longrightarrow>
        hasValidApiKey w p = Inr True"
    using trim_Nil_iff by (auto simp: hasValidApiKey_def)
  have f: "\<forall>e. hasValidApiKey w p = Inl e \<longleftrightarrow> getProviderApiKey w p = Inl e"
    by (auto simp: hasValidApiKey_def split: option.splits sum.splits)
  show ?thesis using a b c d e f by blast
qed

text \<open>
  The scenario of the repository's test: no key at first, then \<^verbatim>\<open>'test-key'\<close>, then a
  key of three spaces.
\<close>

theorem hasValidApiKey_blank_policy_witness:
  "hasValidApiKey (new_ModelRegistry pristine None) OPENAI = Inr False \<and>
   hasValidApiKey (snd (setProviderApiKey (new_ModelRegistry pristine None) OPENAI ''test-key''))
     OPENAI = Inr True \<and>
   hasValidApiKey (snd (setProviderApiKey (new_ModelRegistry pristine None) OPENAI ''   ''))
     OPENAI = Inr False"
proof -
  let ?w = "new_ModelRegistry pristine None"
  have k1: "getProviderApiKey ?w OPENAI = Inr None"
    by (simp add: getProviderApiKey_default)
  have k2: "getProviderApiKey (snd (setProviderApiKey ?w OPENAI ''test-key'')) OPENAI =
              Inr (Some ''test-key'')"
    by (simp add: registry_defs setProviderApiKey_def getProviderApiKey_def getMember_def)
  have k3: "getProviderApiKey (snd (setProviderApiKey ?w OPENAI ''   '')) OPENAI =
              Inr (Some ''   '')"
    by (simp add: registry_defs setProviderApiKey_def getProviderApiKey_def getMember_def)
  have w2: "\<exists>c\<in>set ''test-key''. \<not> isWhiteSpace c"
    by (simp add: isWhiteSpace_def)
  have w3: "\<forall>c\<in>set ''   ''. isWhiteSpace c"
    by (simp add: isWhiteSpace_def)
  show ?thesis
    using hasValidApiKey_blank_policy [of ?w OPENAI]
      hasValidApiKey_blank_policy [of "snd (setProviderApiKey ?w OPENAI ''test-key'')" OPENAI]
      hasValidApiKey_blank_policy [of "snd (setProviderApiKey ?w OPENAI ''   '')" OPENAI]
      k1 k2 k3 w2 w3
    by blast
qed

subsection \<open>Invariants along sequences of calls\<close>

lemma calls_Nil: "calls w [] = w"
  by (simp add: calls_def)

lemma calls_snoc: "calls w (cs @ [c]) = call (calls w cs) c"
  by (simp add: calls_def)

lemma selectionValid_setCurrentModel:
  "selectionValid w \<Longrightarrow> selectionValid (snd (setCurrentModel w p m))"
  by (auto simp: setCurrentModel_def selectionValid_def Let_def getMember_OwnConfig_iff
        split: option.splits member.splits dest: find_Some_ids)

lemma selectionValid_setProviderApiKey:
  "selectionValid w \<Longrightarrow> selectionValid (snd (setProviderApiKey w p k))"
  by (auto simp: setProviderApiKey_def selectionValid_def Let_def getMember_OwnConfig_iff
        update_conv' split: option.splits member.splits if_splits)

lemma selectionValid_call: "selectionValid w \<Longrightarrow> selectionValid (call w c)"
  by (cases c) (simp_all add: selectionValid_setCurrentModel selectionValid_setProviderApiKey)

lemma selectionValid_default: "selectionValid (new_ModelRegistry r None)"
  by (simp add: selectionValid_def registry_defs)

lemma selectionValid_calls: "selectionValid w \<Longrightarrow> selectionValid (calls w cs)"
  by (induction cs rule: rev_induct) (simp_all add: calls_Nil calls_snoc selectionValid_call)

text \<open>
  C2. After any finite sequence of \<^verbatim>\<open>setCurrentModel\<close> and \<^verbatim>\<open>setProviderApiKey\<close>
  calls, with any arguments, on a registry default-constructed in any realm, the current
  provider is an own key of the providers map and the current model is the id of one of that
  provider's models.
\<close>

theorem selection_invariant:
  "\<exists>p m c. getCurrentProvider (calls (new_ModelRegistry r None) cs) = Some p \<and>
            getCurrentModel (calls (new_ModelRegistry r None) cs) = Some m \<and>
            getProvider (calls (new_ModelRegistry r None) cs) p = Inr (OwnConfig c) \<and>
            m \<in> set (map mi_id (pc_models c))"
  using selectionValid_calls [OF selectionValid_default, of r cs]
  by (auto simp: selectionValid_def getProvider_def getCurrentProvider_def getCurrentModel_def
        getMember_own split: option.splits)

lemma update_same_upto:
  "map_of ps p = Some c \<Longrightarrow> f v = f c \<Longrightarrow>
   map (\<lambda>(k, x). (k, f x)) (AList.update p v ps) = map (\<lambda>(k, x). (k, f x)) ps"
  by (induction ps) (auto split: if_splits)

lemma catalogIntact_setProviderApiKey:
  "catalogIntact w \<Longrightarrow> catalogIntact (snd (setProviderApiKey w p k))"
  by (auto simp: catalogIntact_def setProviderApiKey_def Let_def getMember_OwnConfig_iff
        update_same_upto split: option.splits member.splits)

lemma catalogIntact_setCurrentModel:
  "catalogIntact w \<Longrightarrow> catalogIntact (snd (setCurrentModel w p m))"
  by (auto simp: catalogIntact_def setCurrentModel_def Let_def split: option.splits member.splits)

lemma catalogIntact_call: "catalogIntact w \<Longrightarrow> catalogIntact (call w c)"
  by (cases c) (simp_all add: catalogIntact_setCurrentModel catalogIntact_setProviderApiKey)

lemma catalogIntact_calls: "catalogIntact w \<Longrightarrow> catalogIntact (calls w cs)"
  by (induction cs rule: rev_induct) (simp_all add: calls_Nil calls_snoc catalogIntact_call)

lemma catalogIntact_new:
  "(case initialData of None \<Rightarrow> True | Some p \<Rightarrow> p_providers p = Absent) \<Longrightarrow>
   catalogIntact (new_ModelRegistry r initialData)"
  by (auto simp: catalogIntact_def new_ModelRegistry_def spread_def defaultData_def
        defaultProviders_def split: option.splits)

lemma catalogIntact_ids:
  assumes "catalogIntact w"
  shows "map_sum id (map pc_provider) (getProviders w) = Inr [GEMINI, OPENAI, ANTHROPIC]"
proof -
  from assms obtain ps where ps: "providers (data w) = Some ps"
    and eq: "map (\<lambda>(k, c). (k, c\<lparr>pc_apiKey := Absent\<rparr>)) ps = defaultProviders"
    by (auto simp: catalogIntact_def split: option.splits)
  have "map pc_provider (map snd ps) =
        map (pc_provider \<circ> snd) (map (\<lambda>(k, c). (k, c\<lparr>pc_apiKey := Absent\<rparr>)) ps)"
    by (simp add: comp_def case_prod_unfold)
  also have "\<dots> = [GEMINI, OPENAI, ANTHROPIC]"
    by (simp add: eq defaultProviders_def)
  finally show ?thesis
    by (simp add: getProviders_def ps)
qed

lemma catalogIntact_keys:
  assumes "catalogIntact w"
  shows "map_option (map fst) (providers (data w)) = Some [GEMINI, OPENAI, ANTHROPIC]"
proof -
  from assms obtain ps where ps: "providers (data w) = Some ps"
    and eq: "map (\<lambda>(k, c). (k, c\<lparr>pc_apiKey := Absent\<rparr>)) ps = defaultProviders"
    by (auto simp: catalogIntact_def split: option.splits)
  have "map fst ps = map fst (map (\<lambda>(k, c). (k, c\<lparr>pc_apiKey := Absent\<rparr>)) ps)"
    by (simp add: comp_def case_prod_unfold)
  also have "\<dots> = [GEMINI, OPENAI, ANTHROPIC]"
    by (simp add: eq defaultProviders_def)
  finally show ?thesis
    by (simp add: ps)
qed

subsection \<open>Construction and snapshots\<close>

text \<open>
  C3, as the specification states it, fails: the constructor takes the \<^verbatim>\<open>providers\<close>
  object of its argument in place of the default one, so \<^verbatim>\<open>getProviders()\<close> lists the
  values of that object in its property order. For the snapshot whose \<^verbatim>\<open>providers\<close>
  holds the three entries in the order anthropic, openai, gemini, the order of
  \<^verbatim>\<open>getProviders().map(p => p.provider)\<close> is that one and not gemini, openai, anthropic.
\<close>

theorem getProviders_order_counterexample:
  "map_sum id (map pc_provider) (getProviders (fromJSON pristine reorderedSnapshot)) =
     Inr [ANTHROPIC, OPENAI, GEMINI] \<and>
   map_sum id (map pc_provider) (getProviders (fromJSON pristine reorderedSnapshot)) \<noteq>
     Inr [GEMINI, OPENAI, ANTHROPIC]"
  by (simp add: fromJSON_def reorderedSnapshot_def new_ModelRegistry_def spread_def
        getProviders_def GEMINI_def OPENAI_def ANTHROPIC_def)

text \<open>
  C3, amended. For a registry constructed, in any realm, without initial data or from a
  partial snapshot that has no \<^verbatim>\<open>providers\<close> field, and after any finite sequence of
  \<^verbatim>\<open>setCurrentModel\<close> and \<^verbatim>\<open>setProviderApiKey\<close> calls on it, \<^verbatim>\<open>getProviders()\<close>
  returns the three providers GEMINI, OPENAI, ANTHROPIC in that order, stored under the
  keys of the same names.
\<close>

theorem getProviders_fixed_without_overlay:
  assumes "case initialData of None \<Rightarrow> True | Some p \<Rightarrow> p_providers p = Absent"
  shows "map_sum id (map pc_provider) (getProviders (calls (new_ModelRegistry r initialData) cs)) =
           Inr [GEMINI, OPENAI, ANTHROPIC] \<and>
         map_option (map fst) (providers (data (calls (new_ModelRegistry r initialData) cs))) =
           Some [GEMINI, OPENAI, ANTHROPIC]"
  using catalogIntact_calls [OF catalogIntact_new [OF assms], of r cs]
  by (simp add: catalogIntact_ids catalogIntact_keys)

text \<open>
  A registry built from a snapshot of the selection alone, after a credential and a
  selection call.
\<close>

theorem getProviders_fixed_without_overlay_witness:
  "map_sum id (map pc_provider) (getProviders (calls
      (new_ModelRegistry pristine
         (Some \<lparr>p_currentProvider = Value OPENAI, p_currentModel = Value ''gpt-4o'',
                p_providers = Absent\<rparr>))
      [SetProviderApiKey OPENAI ''sk-test-key'', SetCurrentModel GEMINI ''gemini-2.5-flash''])) =
     Inr [GEMINI, OPENAI, ANTHROPIC]"
  using getProviders_fixed_without_overlay
    [of "Some \<lparr>p_currentProvider = Value OPENAI, p_currentModel = Value ''gpt-4o'',
               p_providers = Absent\<rparr>"
        pristine
        "[SetProviderApiKey OPENAI ''sk-test-key'', SetCurrentModel GEMINI ''gemini-2.5-flash'']"]
  by simp

text \<open>
  C5. A registry built from a partial snapshot that names \<^verbatim>\<open>currentProvider\<close> and
  \<^verbatim>\<open>currentModel\<close> only has the provider list of the default registry, the three
  providers in order with their default model lists, and the selection of the snapshot.
\<close>

theorem overlay_selection_only:
  "getProviders (fromJSON r \<lparr>p_currentProvider = Value cp, p_currentModel = Value cm,
                             p_providers = Absent\<rparr>) = getProviders (new_ModelRegistry r None) \<and>
   map_sum id (map pc_provider)
     (getProviders (fromJSON r \<lparr>p_currentProvider = Value cp, p_currentModel = Value cm,
                                p_providers = Absent\<rparr>)) = Inr [GEMINI, OPENAI, ANTHROPIC] \<and>
   map_sum id (map pc_models)
     (getProviders (fromJSON r \<lparr>p_currentProvider = Value cp, p_currentModel = Value cm,
                                p_providers = Absent\<rparr>)) =
     Inr [geminiModels, openaiModels, anthropicModels] \<and>
   getCurrentProvider (fromJSON r \<lparr>p_currentProvider = Value cp, p_currentModel = Value cm,
                                   p_providers = Absent\<rparr>) = Some cp \<and>
   getCurrentModel (fromJSON r \<lparr>p_currentProvider = Value cp, p_currentModel = Value cm,
                                p_providers = Absent\<rparr>) = Some cm"
  by (simp add: fromJSON_def new_ModelRegistry_def spread_def defaultData_def defaultProviders_def
        getProviders_def getCurrentProvider_def getCurrentModel_def)

text \<open>
  C4, as the specification states it, fails on the states that JSON text cannot hold.
  A registry built with \<^verbatim>\<open>currentModel: undefined\<close> has no current model, and the one
  rebuilt from its snapshot has the default model. A model whose \<^verbatim>\<open>contextWindow\<close> is
  \<^verbatim>\<open>Infinity\<close> comes back with \<^verbatim>\<open>contextWindow: null\<close>. A config whose own
  \<^verbatim>\<open>apiKey\<close> holds \<^verbatim>\<open>undefined\<close> comes back without the property, and its key is then
  read from \<^verbatim>\<open>Object.prototype\<close>.
\<close>

theorem snapshot_roundtrip_counterexample:
  "getCurrentModel undefinedModelRegistry = None \<and>
   getCurrentModel (fromJSON (realm undefinedModelRegistry) (toJSON undefinedModelRegistry)) =
     Some ''gemini-2.5-pro'' \<and>
   getModelsForProvider unboundedRegistry GEMINI = Inr [unboundedModel] \<and>
   getModelsForProvider (fromJSON (realm unboundedRegistry) (toJSON unboundedRegistry)) GEMINI =
     Inr [unboundedModel\<lparr>mi_contextWindow := Some Null\<rparr>] \<and>
   getProviderApiKey shadowingRegistry GEMINI = Inr None \<and>
   getProviderApiKey (fromJSON (realm shadowingRegistry) (toJSON shadowingRegistry)) GEMINI =
     Inr (Some ''key'')"
  by (simp add: undefinedModelRegistry_def unboundedRegistry_def shadowingRegistry_def
        unboundedModel_def fromJSON_def toJSON_def new_ModelRegistry_def spread_def defaultData_def
        defaultProviders_def getCurrentModel_def getModelsForProvider_def getProviderApiKey_def
        getMember_def jsonProviderConfig_def jsonModelInfo_def pristine_def
        GEMINI_def OPENAI_def ANTHROPIC_def)

lemma jsonNumber_id: "jsonValue x \<Longrightarrow> map_option jsonNumber x = x"
  by (induction x rule: jsonValue.induct) simp_all

lemma jsonModelInfo_id: "jsonValue (mi_contextWindow m) \<Longrightarrow> jsonModelInfo m = m"
  by (simp add: jsonModelInfo_def jsonNumber_id)

lemma jsonProviderConfig_id:
  assumes k: "pc_apiKey c \<noteq> Undefined"
    and ms: "list_all (\<lambda>m. jsonValue (mi_contextWindow m)) (pc_models c)"
  shows "jsonProviderConfig c = c"
proof -
  have "map jsonModelInfo (pc_models c) = pc_models c"
    using ms by (intro map_idI) (simp add: list_all_iff jsonModelInfo_id)
  moreover have "(case pc_apiKey c of Undefined \<Rightarrow> Absent | Absent \<Rightarrow> Absent | Value k \<Rightarrow> Value k) =
                 pc_apiKey c"
    using k by (cases "pc_apiKey c") simp_all
  ultimately show ?thesis
    by (simp add: jsonProviderConfig_def)
qed

lemma roundtrip_eq:
  assumes "jsonRepresentable (data S)"
  shows "fromJSON (realm S) (toJSON S) = S"
proof -
  from assms obtain p m ps where p: "currentProvider (data S) = Some p"
    and m: "currentModel (data S) = Some m" and ps: "providers (data S) = Some ps"
    and all: "list_all (\<lambda>(k, c). pc_apiKey c \<noteq> Undefined \<and>
                 list_all (\<lambda>m. jsonValue (mi_contextWindow m)) (pc_models c)) ps"
    by (auto simp: jsonRepresentable_def split: option.splits)
  have "map (\<lambda>(k, c). (k, jsonProviderConfig c)) ps = ps"
    using all by (intro map_idI) (auto simp: list_all_iff jsonProviderConfig_id)
  then have "data (fromJSON (realm S) (toJSON S)) = data S"
    by (simp add: fromJSON_def toJSON_def new_ModelRegistry_def spread_def p m ps)
  moreover have "realm (fromJSON (realm S) (toJSON S)) = realm S"
    by (simp add: fromJSON_def new_ModelRegistry_def)
  ultimately show ?thesis by simp
qed

text \<open>
  C4, amended. For every registry \<open>S\<close> whose data JSON text can hold (the current provider,
  the current model and the providers map are not \<^verbatim>\<open>undefined\<close>, no \<^verbatim>\<open>apiKey\<close>
  property holds \<^verbatim>\<open>undefined\<close>, no \<^verbatim>\<open>contextWindow\<close> is \<^verbatim>\<open>NaN\<close> or infinite), the
  registry rebuilt in the realm of \<open>S\<close> from the snapshot of \<open>S\<close> has the current provider
  and the current model of \<open>S\<close> and, for every provider identifier, the credential and the
  model list that \<open>S\<close> has for it.
\<close>

theorem snapshot_roundtrip:
  assumes "jsonRepresentable (data S)"
  shows "getCurrentProvider (fromJSON (realm S) (toJSON S)) = getCurrentProvider S \<and>
         getCurrentModel (fromJSON (realm S) (toJSON S)) = getCurrentModel S \<and>
         (\<forall>p. getProviderApiKey (fromJSON (realm S) (toJSON S)) p = getProviderApiKey S p) \<and>
         (\<forall>p. getModelsForProvider (fromJSON (realm S) (toJSON S)) p = getModelsForProvider S p)"
  by (simp add: roundtrip_eq [OF assms])

lemma serializedRegistry_eval:
  "serializedRegistry =
    \<lparr>realm = pristine,
     data = \<lparr>currentProvider = Some ANTHROPIC,
             currentModel = Some ''claude-3-5-sonnet-20241022'',
             providers = Some
               [(GEMINI, \<lparr>pc_name = ''Google Gemini'', pc_provider = GEMINI, pc_apiKey = Absent,
                          pc_baseUrl = None, pc_models = geminiModels\<rparr>),
                (OPENAI, \<lparr>pc_name = ''OpenAI'', pc_provider = OPENAI, pc_apiKey = Absent,
                          pc_baseUrl = None, pc_models = openaiModels\<rparr>),
                (ANTHROPIC, \<lparr>pc_name = ''Anthropic Claude'', pc_provider = ANTHROPIC,
                             pc_apiKey = Value ''test-key'', pc_baseUrl = None,
                             pc_models = anthropicModels\<rparr>)]\<rparr>\<rparr>"
  by (simp add: serializedRegistry_def calls_def setCurrentModel_def setProviderApiKey_def
        getMember_def new_ModelRegistry_def defaultData_def defaultProviders_def
        anthropicModels_def GEMINI_def OPENAI_def ANTHROPIC_def)

text \<open>
  The repository's serialization test: the registry rebuilt from the snapshot has the
  selection and the key that were set.
\<close>

theorem snapshot_roundtrip_witness:
  "jsonRepresentable (data serializedRegistry) \<and>
   getCurrentProvider (fromJSON (realm serializedRegistry) (toJSON serializedRegistry)) =
     Some ANTHROPIC \<and>
   getCurrentModel (fromJSON (realm serializedRegistry) (toJSON serializedRegistry)) =
     Some ''claude-3-5-sonnet-20241022'' \<and>
   getProviderApiKey (fromJSON (realm serializedRegistry) (toJSON serializedRegistry)) ANTHROPIC =
     Inr (Some ''test-key'')"
proof -
  have rep: "jsonRepresentable (data serializedRegistry)"
    by (simp add: serializedRegistry_eval jsonRepresentable_def geminiModels_def openaiModels_def
          anthropicModels_def)
  have o1: "getCurrentProvider serializedRegistry = Some ANTHROPIC"
    by (simp add: serializedRegistry_eval getCurrentProvider_def)
  have o2: "getCurrentModel serializedRegistry = Some ''claude-3-5-sonnet-20241022''"
    by (simp add: serializedRegistry_eval getCurrentModel_def)
  have o3: "getProviderApiKey serializedRegistry ANTHROPIC = Inr (Some ''test-key'')"
    by (simp add: serializedRegistry_eval getProviderApiKey_def getMember_def
          GEMINI_def OPENAI_def ANTHROPIC_def)
  show ?thesis
    using snapshot_roundtrip [OF rep] rep o1 o2 o3 by simp
qed

section \<open>Properties of the content generators\<close>

text \<open>
  C7. The factory returns the OpenAI generator for the provider \<^verbatim>\<open>openai\<close> and the
  Anthropic generator for \<^verbatim>\<open>anthropic\<close>, each holding the config it was given. For
  every other provider the call itself throws the error \<^verbatim>\<open>Unsupported provider\<close>: its
  result is the error and there is no generator whose methods could be called.
\<close>

theorem createProviderContentGenerator_dispatch:
  "(cfg_provider config = OPENAI \<longrightarrow>
      createProviderContentGenerator config = Inr (OpenAIContentGenerator config)) \<and>
   (cfg_provider config = ANTHROPIC \<longrightarrow>
      createProviderContentGenerator config = Inr (AnthropicContentGenerator config)) \<and>
   (cfg_provider config \<noteq> OPENAI \<and> cfg_provider config \<noteq> ANTHROPIC \<longrightarrow>
      createProviderContentGenerator config =
        Inl (Error (''Unsupported provider: '' @ cfg_provider config)))"
  by (simp add: createProviderContentGenerator_def OPENAI_def ANTHROPIC_def)

text \<open>One config for each of the three branches; \<^verbatim>\<open>gemini\<close> takes the last one.\<close>

theorem createProviderContentGenerator_dispatch_witness:
  "createProviderContentGenerator
     \<lparr>cfg_provider = OPENAI, cfg_model = ''gpt-4o'', cfg_apiKey = None, cfg_baseUrl = None,
      cfg_proxy = None\<rparr> =
     Inr (OpenAIContentGenerator
       \<lparr>cfg_provider = OPENAI, cfg_model = ''gpt-4o'', cfg_apiKey = None, cfg_baseUrl = None,
        cfg_proxy = None\<rparr>) \<and>
   createProviderContentGenerator
     \<lparr>cfg_provider = ANTHROPIC, cfg_model = ''claude-3-opus-20240229'', cfg_apiKey = None,
      cfg_baseUrl = None, cfg_proxy = None\<rparr> =
     Inr (AnthropicContentGenerator
       \<lparr>cfg_provider = ANTHROPIC, cfg_model = ''claude-3-opus-20240229'', cfg_apiKey = None,
        cfg_baseUrl = None, cfg_proxy = None\<rparr>) \<and>
   createProviderContentGenerator
     \<lparr>cfg_provider = GEMINI, cfg_model = ''gemini-2.5-pro'', cfg_apiKey = None,
      cfg_baseUrl = None, cfg_proxy = None\<rparr> =
     Inl (Error ''Unsupported provider: gemini'')"
  using createProviderContentGenerator_dispatch
      [of "\<lparr>cfg_provider = OPENAI, cfg_model = ''gpt-4o'', cfg_apiKey = None, cfg_baseUrl = None,
            cfg_proxy = None\<rparr>"]
    createProviderContentGenerator_dispatch
      [of "\<lparr>cfg_provider = ANTHROPIC, cfg_model = ''claude-3-opus-20240229'', cfg_apiKey = None,
            cfg_baseUrl = None, cfg_proxy = None\<rparr>"]
    createProviderContentGenerator_dispatch
      [of "\<lparr>cfg_provider = GEMINI, cfg_model = ''gemini-2.5-pro'', cfg_apiKey = None,
            cfg_baseUrl = None, cfg_proxy = None\<rparr>"]
  by (simp add: GEMINI_def OPENAI_def ANTHROPIC_def)

lemma sublist_OpenAI:
  "sublist ''OpenAI''
     ''OpenAI provider is not yet implemented. Please use Gemini provider for now.''"
  by code_simp

lemma sublist_Anthropic:
  "sublist ''Anthropic''
     ''Anthropic provider is not yet implemented. Please use Gemini provider for now.''"
  by code_simp

lemma sublist_Gemini_OpenAI:
  "sublist ''Please use Gemini provider''
     ''OpenAI provider is not yet implemented. Please use Gemini provider for now.''"
  by code_simp

lemma sublist_Gemini_Anthropic:
  "sublist ''Please use Gemini provider''
     ''Anthropic provider is not yet implemented. Please use Gemini provider for now.''"
  by code_simp

lemma sublist_unimplemented_OpenAI:
  "sublist ''not yet implemented''
     ''OpenAI provider is not yet implemented. Please use Gemini provider for now.''"
  by code_simp

lemma sublist_unimplemented_Anthropic:
  "sublist ''not yet implemented''
     ''Anthropic provider is not yet implemented. Please use Gemini provider for now.''"
  by code_simp

text \<open>
  C8. The factory constructs a generator for \<^verbatim>\<open>openai\<close> and for \<^verbatim>\<open>anthropic\<close>. On
  every request, each of the four methods of either generator rejects with one and the same
  error per generator; its message contains the provider's name, the words "not yet
  implemented" and the advice to use the Gemini provider.
\<close>

theorem stub_generators_not_implemented:
  "createProviderContentGenerator (config\<lparr>cfg_provider := OPENAI\<rparr>) =
     Inr (OpenAIContentGenerator (config\<lparr>cfg_provider := OPENAI\<rparr>)) \<and>
   createProviderContentGenerator (config\<lparr>cfg_provider := ANTHROPIC\<rparr>) =
     Inr (AnthropicContentGenerator (config\<lparr>cfg_provider := ANTHROPIC\<rparr>)) \<and>
   (\<exists>msg. generateContent (OpenAIContentGenerator config) r1 = Rejected (Error msg) \<and>
          generateContentStream (OpenAIContentGenerator config) r2 = Rejected (Error msg) \<and>
          countTokens (OpenAIContentGenerator config) r3 = Rejected (Error msg) \<and>
          embedContent (OpenAIContentGenerator config) r4 = Rejected (Error msg) \<and>
          sublist ''OpenAI'' msg \<and> sublist ''not yet implemented'' msg \<and>
          sublist ''Please use Gemini provider'' msg) \<and>
   (\<exists>msg. generateContent (AnthropicContentGenerator config) r1 = Rejected (Error msg) \<and>
          generateContentStream (AnthropicContentGenerator config) r2 = Rejected (Error msg) \<and>
          countTokens (AnthropicContentGenerator config) r3 = Rejected (Error msg) \<and>
          embedContent (AnthropicContentGenerator config) r4 = Rejected (Error msg) \<and>
          sublist ''Anthropic'' msg \<and> sublist ''not yet implemented'' msg \<and>
          sublist ''Please use Gemini provider'' msg)"
proof -
  have 1: "createProviderContentGenerator (config\<lparr>cfg_provider := OPENAI\<rparr>) =
             Inr (OpenAIContentGenerator (config\<lparr>cfg_provider := OPENAI\<rparr>))"
    by (simp add: createProviderContentGenerator_def)
  have 2: "createProviderContentGenerator (config\<lparr>cfg_provider := ANTHROPIC\<rparr>) =
             Inr (AnthropicContentGenerator (config\<lparr>cfg_provider := ANTHROPIC\<rparr>))"
    by (simp add: createProviderContentGenerator_def OPENAI_def ANTHROPIC_def)
  show ?thesis
    using 1 2 sublist_OpenAI sublist_Anthropic sublist_Gemini_OpenAI sublist_Gemini_Anthropic
      sublist_unimplemented_OpenAI sublist_unimplemented_Anthropic
    by simp
qed

end
